theory Spec2Isabelle
  imports Complex_Main
begin

section \<open>The forecasting notebook \<open>notebook/flaml_forecast.ipynb\<close>\<close>

text \<open>
  The notebook is a linear script: it loads the weekly CO2 series, resamples it to monthly
  means, fills missing months, converts the series to a two-column table, holds out the
  last \<open>time_horizon\<close> rows, and hands the rest to the external AutoML component together
  with a dictionary of settings.

  Conventions of the embedding.
  \<^item> A pandas Series is the list of its \<open>(index label, value)\<close> rows; the value \<open>None\<close> is NaN.
  \<^item> A timestamp is the number of its month (\<open>12 * year + month\<close>): this is the only part of
    a date that \<open>resample('MS')\<close> reads, and the labels it writes are month starts.
  \<^item> The numeric type of the values is a type variable \<open>'v\<close>, and the averaging function of
    \<open>.mean()\<close> is a parameter: nothing below depends on how floating-point numbers are
    averaged.
  \<^item> A DataFrame with a fresh \<open>RangeIndex\<close> is the list of its rows, the position in the list
    being the row label.
\<close>

subsection \<open>Series and the monthly resampling (cell 2, line 54)\<close>

type_synonym 'v series = "(int \<times> 'v option) list"

text \<open>The non-missing values of the rows that fall into month \<open>m\<close>.\<close>

definition bin_values :: "'v series \<Rightarrow> int \<Rightarrow> 'v list" where
  "bin_values raw m = List.map_filter (\<lambda>(t, x). if t = m then x else None) raw"

text \<open>\<open>.mean()\<close> skips NaN; a bin without any value has mean NaN.\<close>

definition bin_mean :: "('v list \<Rightarrow> 'v) \<Rightarrow> 'v list \<Rightarrow> 'v option" where
  "bin_mean mean vs = (if vs = [] then None else Some (mean vs))"

text \<open>
  \<open>data['co2'].resample('MS').mean()\<close>: one row per month from the earliest to the latest
  month of the input, in increasing order; an empty input gives an empty series.
\<close>

definition resample_MS_mean :: "('v list \<Rightarrow> 'v) \<Rightarrow> 'v series \<Rightarrow> 'v series" where
  "resample_MS_mean mean raw =
     (case raw of
        [] \<Rightarrow> []
      | r # rs \<Rightarrow>
          map (\<lambda>m. (m, bin_mean mean (bin_values raw m)))
            [fold min (map fst rs) (fst r) .. fold max (map fst rs) (fst r)])"

subsection \<open>Filling (cell 2, line 55)\<close>

text \<open>\<open>Series.bfill()\<close>: a NaN takes the next valid observation; trailing NaN stay.\<close>

fun bfill :: "'v series \<Rightarrow> 'v series" where
  "bfill [] = []"
| "bfill ((t, Some v) # xs) = (t, Some v) # bfill xs"
| "bfill ((t, None) # xs) =
     (t, (case bfill xs of [] \<Rightarrow> None | (_, y) # _ \<Rightarrow> y)) # bfill xs"

text \<open>
  \<open>Series.fillna(other)\<close> with a Series argument: a NaN at label \<open>t\<close> takes the value
  \<open>other\<close> has at label \<open>t\<close>; it stays NaN when \<open>other\<close> has no such label.
\<close>

definition fillna :: "'v series \<Rightarrow> 'v series \<Rightarrow> 'v series" where
  "fillna s other =
     map (\<lambda>(t, x). (t, case x of
                          Some v \<Rightarrow> Some v
                        | None \<Rightarrow> (case map_of other t of Some y \<Rightarrow> y | None \<Rightarrow> None))) s"

subsection \<open>The table (cell 2, line 56)\<close>

text \<open>
  \<open>to_frame().reset_index()\<close>: the labels become the column \<open>'index'\<close>, the values the
  column \<open>'co2'\<close>.
\<close>

record 'v row =
  index :: int
  co2 :: "'v option"

type_synonym 'v frame = "'v row list"

definition to_frame_reset_index :: "'v series \<Rightarrow> 'v frame" where
  "to_frame_reset_index s = map (\<lambda>(t, x). \<lparr>index = t, co2 = x\<rparr>) s"

text \<open>Line 55 alone, and the whole of cell 2 after the fetch.\<close>

definition fill_step :: "'v series \<Rightarrow> 'v series" where
  "fill_step s = fillna s (bfill s)"

definition data :: "('v list \<Rightarrow> 'v) \<Rightarrow> 'v series \<Rightarrow> 'v frame" where
  "data mean raw = to_frame_reset_index (fill_step (resample_MS_mean mean raw))"

subsection \<open>The splitter (cell 3)\<close>

text \<open>
  Python's slice bounds on a sequence of length \<open>n\<close>: a negative bound counts from the
  end, and every bound is clamped to \<open>0 .. n\<close>.
\<close>

definition slice_bound :: "nat \<Rightarrow> int \<Rightarrow> nat" where
  "slice_bound n k = (if k < 0 then nat (max 0 (int n + k)) else min n (nat k))"

definition slice_to :: "'a list \<Rightarrow> int \<Rightarrow> 'a list" where
  "slice_to xs k = take (slice_bound (length xs) k) xs"

definition slice_from :: "'a list \<Rightarrow> int \<Rightarrow> 'a list" where
  "slice_from xs k = drop (slice_bound (length xs) k) xs"

definition num_samples :: "'v frame \<Rightarrow> int" where
  "num_samples d = int (length d)"

definition time_horizon :: int where
  "time_horizon = 12"

definition split_idx :: "'v frame \<Rightarrow> int" where
  "split_idx d = num_samples d - time_horizon"

definition X_train :: "'v frame \<Rightarrow> 'v frame" where
  "X_train d = slice_to d (split_idx d)"

text \<open>\<open>X_test\<close> is the one-column table \<open>'ds'\<close>; \<open>y_test\<close> is the \<open>'co2'\<close> column.\<close>

definition X_test :: "'v frame \<Rightarrow> int list" where
  "X_test d = map index (slice_from d (split_idx d))"

definition y_test :: "'v frame \<Rightarrow> 'v option list" where
  "y_test d = map co2 (slice_from d (split_idx d))"

text \<open>The test table: the timestamps of \<open>X_test\<close> paired with the values of \<open>y_test\<close>.\<close>

definition test_table :: "'v frame \<Rightarrow> 'v frame" where
  "test_table d = map (\<lambda>(t, x). \<lparr>index = t, co2 = x\<rparr>) (zip (X_test d) (y_test d))"

text \<open>The exact arithmetic mean, to run the model on concrete inputs.\<close>

definition avg :: "rat list \<Rightarrow> rat" where
  "avg vs = sum_list vs / of_nat (length vs)"

text \<open>Timestamps that follow each other month by month, none skipped.\<close>

fun consecutive :: "int list \<Rightarrow> bool" where
  "consecutive (a # b # ts) = (b = a + 1 \<and> consecutive (b # ts))"
| "consecutive ts = True"

subsection \<open>The fill as the specification words it\<close>

text \<open>The first observed value of a column, if there is one.\<close>

fun first_obs :: "'v option list \<Rightarrow> 'v option" where
  "first_obs [] = None"
| "first_obs (Some v # xs) = Some v"
| "first_obs (None # xs) = first_obs xs"

text \<open>
  The specification's reading of the fill, a forward fill combined with a back fill: a
  missing entry takes the nearest preceding observed value \<open>prev\<close> when there is one, and
  the nearest following observed value otherwise. It is not taken from the notebook; it is
  compared with \<open>fill_step\<close> below.
\<close>

fun spec_fill_from :: "'v option \<Rightarrow> 'v series \<Rightarrow> 'v series" where
  "spec_fill_from prev [] = []"
| "spec_fill_from prev ((t, Some v) # xs) = (t, Some v) # spec_fill_from (Some v) xs"
| "spec_fill_from prev ((t, None) # xs) =
     (t, (case prev of Some p \<Rightarrow> Some p | None \<Rightarrow> first_obs (map snd xs)))
       # spec_fill_from prev xs"

definition spec_ffill_bfill :: "'v series \<Rightarrow> 'v series" where
  "spec_ffill_bfill s = spec_fill_from None s"

subsection \<open>The call of the external component (cells 5 and 6)\<close>

datatype pyval = PyInt int | PyStr string

text \<open>The dictionary \<open>settings\<close>, in the order it is written.\<close>

definition settings :: "(string \<times> pyval) list" where
  "settings =
     [(''time_budget'', PyInt 180),
      (''metric'', PyStr ''mape''),
      (''task'', PyStr ''forecast''),
      (''log_file_name'', PyStr ''CO2_forecast.log''),
      (''eval_method'', PyStr ''holdout''),
      (''seed'', PyInt 7654321)]"

text \<open>
  The arguments of \<open>automl.fit(dataframe=X_train, label=('index', 'co2'), **settings,
  period=time_horizon)\<close>: the two named arguments and the remaining keyword arguments.
\<close>

record 'v fit_args =
  dataframe :: "'v frame"
  label :: "string \<times> string"
  kwargs :: "(string \<times> pyval) list"

definition automl_fit_args :: "'v frame \<Rightarrow> 'v fit_args" where
  "automl_fit_args d =
     \<lparr>dataframe = X_train d,
      label = (''index'', ''co2''),
      kwargs = settings @ [(''period'', PyInt time_horizon)]\<rparr>"

subsection \<open>The prediction (cell 10)\<close>

text \<open>
  \<open>flaml_y_pred = automl.predict(X_test)\<close>, for any prediction function and any fitted
  model.
\<close>

definition flaml_y_pred :: "('m \<Rightarrow> int list \<Rightarrow> 'p) \<Rightarrow> 'm \<Rightarrow> 'v frame \<Rightarrow> 'p" where
  "flaml_y_pred predict_fn automl d = predict_fn automl (X_test d)"

section \<open>Properties\<close>

subsection \<open>Auxiliary facts\<close>

lemma slice_to_from: "slice_to xs k @ slice_from xs k = xs"
  by (simp add: slice_to_def slice_from_def)

lemma map_fst_resample:
  "\<exists>i j. map fst (resample_MS_mean mean raw) = [i..j]"
proof (cases raw)
  case Nil
  have "map fst (resample_MS_mean mean []) = [1..0]"
    by (simp add: resample_MS_mean_def)
  with Nil show ?thesis by blast
next
  case (Cons r rs)
  then show ?thesis
    by (auto simp: resample_MS_mean_def comp_def)
qed

lemma map_fst_bfill: "map fst (bfill s) = map fst s"
  by (induction s rule: bfill.induct) simp_all

lemma length_bfill: "length (bfill s) = length s"
  using map_fst_bfill [of s] by (metis length_map)

lemma map_fst_fillna: "map fst (fillna s other) = map fst s"
  by (simp add: fillna_def comp_def case_prod_unfold)

lemma map_fst_fill_step: "map fst (fill_step s) = map fst s"
  by (simp add: fill_step_def map_fst_fillna)

lemma map_index_to_frame: "map index (to_frame_reset_index s) = map fst s"
  by (simp add: to_frame_reset_index_def comp_def case_prod_unfold)

lemma index_data: "\<exists>i j. map index (data mean raw) = [i..j]"
  using map_fst_resample [of mean raw]
  by (simp add: data_def map_index_to_frame map_fst_fill_step)

lemma consecutive_upto: "consecutive [i..j]"
proof (induction i j rule: upto.induct)
  case (1 i j)
  show ?case
  proof (cases "i \<le> j")
    case False
    then show ?thesis by simp
  next
    case True
    note ij = this
    show ?thesis
    proof (cases "i + 1 \<le> j")
      case False
      with ij have "[i..j] = [i]" by (simp add: upto_rec1)
      then show ?thesis by simp
    next
      case True
      then have "[i..j] = i # (i + 1) # [i + 1 + 1..j]"
        using ij by (simp add: upto_rec1)
      moreover have "consecutive [i + 1..j]" using 1 ij by simp
      moreover have "[i + 1..j] = (i + 1) # [i + 1 + 1..j]"
        using True by (simp add: upto_rec1)
      ultimately show ?thesis by simp
    qed
  qed
qed

lemma bfill_nth_snd:
  "i < length s \<Longrightarrow> snd (bfill s ! i) = first_obs (map snd (drop i s))"
proof (induction s arbitrary: i rule: bfill.induct)
  case 1
  then show ?case by simp
next
  case (2 t v xs)
  then show ?case by (cases i) simp_all
next
  case (3 t xs)
  show ?case
  proof (cases i)
    case (Suc k)
    with 3 show ?thesis by simp
  next
    case 0
    show ?thesis
    proof (cases xs)
      case Nil
      with 0 show ?thesis by simp
    next
      case (Cons a as)
      then have "0 < length xs" by simp
      from 3(1) [OF this] have h: "snd (bfill xs ! 0) = first_obs (map snd xs)" by simp
      from Cons have "bfill xs \<noteq> []" using length_bfill [of xs] by auto
      then obtain b bs where bb: "bfill xs = b # bs" by (cases "bfill xs") auto
      with h 0 show ?thesis by (simp add: case_prod_unfold)
    qed
  qed
qed

lemma fillna_bfill:
  assumes "distinct (map fst s)"
  shows "fillna s (bfill s) = bfill s"
proof (rule nth_equalityI)
  show "length (fillna s (bfill s)) = length (bfill s)"
    by (simp add: fillna_def length_bfill)
next
  fix i assume "i < length (fillna s (bfill s))"
  then have i: "i < length s" by (simp add: fillna_def)
  have d: "distinct (map fst (bfill s))" using assms by (simp add: map_fst_bfill)
  have f: "fst (bfill s ! i) = fst (s ! i)"
    using i map_fst_bfill [of s] by (metis length_bfill nth_map)
  have "bfill s ! i \<in> set (bfill s)" using i by (simp add: length_bfill)
  then have "(fst (s ! i), snd (bfill s ! i)) \<in> set (bfill s)" using f by (metis prod.collapse)
  then have m: "map_of (bfill s) (fst (s ! i)) = Some (snd (bfill s ! i))"
    using d by simp
  have o: "snd (s ! i) = Some v \<Longrightarrow> snd (bfill s ! i) = Some v" for v
  proof -
    assume a: "snd (s ! i) = Some v"
    have "drop i s = s ! i # drop (Suc i) s" using i by (simp add: Cons_nth_drop_Suc)
    then have "first_obs (map snd (drop i s)) = Some v" using a by simp
    then show ?thesis using bfill_nth_snd [OF i] by simp
  qed
  obtain t x where tx: "s ! i = (t, x)" by (cases "s ! i")
  have "fillna s (bfill s) ! i =
      (t, case x of Some v \<Rightarrow> Some v
                  | None \<Rightarrow> (case map_of (bfill s) t of Some y \<Rightarrow> y | None \<Rightarrow> None))"
    using i tx by (simp add: fillna_def)
  also have "\<dots> = (t, snd (bfill s ! i))"
    using m o tx by (cases x) simp_all
  also have "\<dots> = bfill s ! i"
    using f tx by (simp add: prod_eq_iff)
  finally show "fillna s (bfill s) ! i = bfill s ! i" .
qed

lemma distinct_resample: "distinct (map fst (resample_MS_mean mean raw))"
  using map_fst_resample [of mean raw] by (metis distinct_upto)

lemma fill_step_resample:
  "fill_step (resample_MS_mean mean raw) = bfill (resample_MS_mean mean raw)"
  by (simp add: fill_step_def fillna_bfill distinct_resample)

lemma row_rebuild:
  "map (\<lambda>(t, x). \<lparr>index = t, co2 = x\<rparr>) (zip (map index xs) (map co2 xs)) = (xs :: 'v frame)"
  by (induction xs) simp_all

lemma test_table_slice: "test_table d = slice_from d (split_idx d)"
  by (simp add: test_table_def X_test_def y_test_def row_rebuild)

lemma train_test_append: "X_train d @ test_table d = d"
  by (simp add: test_table_slice X_train_def slice_to_from)

lemma X_test_index:
  "X_test d = drop (slice_bound (length d) (split_idx d)) (map index d)"
  by (simp add: X_test_def slice_from_def drop_map)

lemma X_train_index:
  "map index (X_train d) = take (slice_bound (length d) (split_idx d)) (map index d)"
  by (simp add: X_train_def slice_to_def take_map)

lemma index_split: "map index (X_train d) @ X_test d = map index d"
  by (simp add: X_test_index X_train_index)

lemma sorted_index_data: "sorted_wrt (<) (map index (data mean raw))"
  using index_data [of mean raw] by (metis sorted_wrt_upto)

lemma distinct_index_data: "distinct (map index (data mean raw))"
  using index_data [of mean raw] by (metis distinct_upto)

lemma consecutive_index_data: "consecutive (map index (data mean raw))"
  using index_data [of mean raw] by (metis consecutive_upto)

lemma first_obs_skip:
  "n < length xs \<Longrightarrow> (\<And>k. k < n \<Longrightarrow> xs ! k = None) \<Longrightarrow> first_obs xs = first_obs (drop n xs)"
proof (induction n arbitrary: xs)
  case 0
  then show ?case by simp
next
  case (Suc n)
  then obtain y ys where xs: "xs = y # ys" by (cases xs) auto
  from Suc.prems(2) [of 0] xs have y: "y = None" by simp
  have "first_obs ys = first_obs (drop n ys)"
  proof (rule Suc.IH)
    show "n < length ys" using Suc.prems(1) xs by simp
  next
    fix k assume "k < n"
    then show "ys ! k = None" using Suc.prems(2) [of "Suc k"] xs by simp
  qed
  with xs y show ?case by simp
qed

lemma first_obs_next:
  assumes "i < j" "j < length s" "snd (s ! i) = None" "snd (s ! j) = Some v"
    and gap: "\<And>k. i < k \<Longrightarrow> k < j \<Longrightarrow> snd (s ! k) = None"
  shows "first_obs (map snd (drop i s)) = Some v"
proof -
  let ?xs = "map snd (drop i s)"
  have len: "j - i < length ?xs" using assms(1,2) by simp
  have none: "?xs ! k = None" if "k < j - i" for k
  proof (cases k)
    case 0
    then show ?thesis using assms(1,2,3) by simp
  next
    case (Suc m)
    then have "i < i + k" "i + k < j" using that by simp_all
    from gap [OF this] show ?thesis using that assms(2) by simp
  qed
  have "first_obs ?xs = first_obs (drop (j - i) ?xs)"
    using len none by (rule first_obs_skip)
  also have "drop (j - i) ?xs = map snd (drop j s)"
    using assms(1) by (simp add: drop_map)
  also have "drop j s = s ! j # drop (Suc j) s"
    using assms(2) by (simp add: Cons_nth_drop_Suc)
  finally show ?thesis using assms(4) by simp
qed

lemma first_obs_here:
  "i < length s \<Longrightarrow> snd (s ! i) = Some v \<Longrightarrow> first_obs (map snd (drop i s)) = Some v"
  by (simp add: Cons_nth_drop_Suc [symmetric])

lemma sorted_index_split:
  "sorted_wrt (<) (map index (X_train (data mean raw)) @ X_test (data mean raw))"
  by (simp only: index_split sorted_index_data)

subsection \<open>The splitter's row counts\<close>

text \<open>
  C1, as stated: for every input series \<open>X_test\<close> and \<open>y_test\<close> have exactly 12 rows. A
  series of a single month refutes it: the one row is all the test table gets.
\<close>

theorem test_rows_eq_horizon_counterexample:
  "\<not> (length (X_test (data avg [(0, Some 1)])) = 12 \<and>
      length (y_test (data avg [(0, Some 1)])) = 12)"
  by code_simp

text \<open>
  C1, amended: whenever the table has at least \<open>time_horizon\<close> rows, \<open>X_test\<close> and \<open>y_test\<close>
  have exactly \<open>time_horizon\<close> rows each, and the test table is the last \<open>time_horizon\<close>
  rows of the table.
\<close>

theorem test_rows_eq_horizon:
  "time_horizon \<le> num_samples d \<Longrightarrow>
     int (length (X_test d)) = time_horizon \<and>
     int (length (y_test d)) = time_horizon \<and>
     test_table d = drop (length d - nat time_horizon) d"
  by (simp add: test_table_slice X_test_def y_test_def slice_from_def slice_bound_def
      split_idx_def num_samples_def time_horizon_def nat_diff_distrib)

text \<open>A series spanning fourteen months meets the hypothesis.\<close>

theorem test_rows_eq_horizon_witness:
  "time_horizon \<le> num_samples (data avg [(0, Some 1), (13, Some 2)]) \<and>
   int (length (X_test (data avg [(0, Some 1), (13, Some 2)]))) = time_horizon \<and>
   int (length (y_test (data avg [(0, Some 1), (13, Some 2)]))) = time_horizon \<and>
   test_table (data avg [(0, Some 1), (13, Some 2)]) =
     drop (length (data avg [(0, Some 1), (13, Some 2)]) - nat time_horizon)
       (data avg [(0, Some 1), (13, Some 2)])"
proof -
  have h: "time_horizon \<le> num_samples (data avg [(0, Some 1), (13, Some 2)])"
    by code_simp
  from test_rows_eq_horizon [OF h] h show ?thesis by blast
qed

subsection \<open>Training and test table together\<close>

text \<open>
  C2: for every input series, the training table followed by the test table is the whole
  table again, row for row; its timestamps increase strictly, follow each other month by
  month without a gap, and no row occurs twice.
\<close>

theorem train_test_concat:
  "X_train (data mean raw) @ test_table (data mean raw) = data mean raw \<and>
   sorted_wrt (<) (map index (X_train (data mean raw) @ test_table (data mean raw))) \<and>
   consecutive (map index (X_train (data mean raw) @ test_table (data mean raw))) \<and>
   distinct (X_train (data mean raw) @ test_table (data mean raw))"
proof -
  have "distinct (data mean raw)"
    using distinct_index_data [of mean raw] by (rule distinct_map [THEN iffD1, THEN conjunct1])
  then show ?thesis
    by (simp only: train_test_append sorted_index_data consecutive_index_data simp_thms)
qed

subsection \<open>Missing values after the fill\<close>

text \<open>
  C3 says that after the fill (commented \<open>makes sure there are no missing values\<close> in the
  notebook) no value of the training or test series is missing, also for missing values at
  the end. The notebook evaluated on a series of fourteen months whose last month holds
  only a missing observation: every month after the first stays missing, in the training
  table and in all twelve rows of \<open>y_test\<close>.
\<close>

theorem fill_leaves_trailing_missing:
  "map co2 (X_train (data avg [(0, Some 1), (13, None)])) = [Some 1, None] \<and>
   y_test (data avg [(0, Some 1), (13, None)]) = replicate 12 None"
  by code_simp

subsection \<open>What the fill does\<close>

text \<open>
  C4, as stated: the loader forward-fills and back-fills, a missing entry taking the nearest
  preceding observed value when there is one. A gap between two observed months refutes
  it: the notebook fills the gap with the value after it, the forward/back fill with the
  value before it.
\<close>

theorem fill_is_ffill_bfill_counterexample:
  "fill_step (resample_MS_mean avg [(0, Some 1), (2, Some 3)]) \<noteq>
   spec_ffill_bfill (resample_MS_mean avg [(0, Some 1), (2, Some 3)])"
  by code_simp

text \<open>
  C4, amended: the loader back-fills only. The fill keeps every timestamp and every
  observed value of the resampled series, and a missing entry that has an observed value
  somewhere after it takes the nearest such value.
\<close>

theorem fill_is_bfill:
  "i < length (resample_MS_mean mean raw) \<Longrightarrow>
     map fst (fill_step (resample_MS_mean mean raw)) = map fst (resample_MS_mean mean raw) \<and>
     (\<forall>v. snd (resample_MS_mean mean raw ! i) = Some v \<longrightarrow>
          snd (fill_step (resample_MS_mean mean raw) ! i) = Some v) \<and>
     (\<forall>j v. snd (resample_MS_mean mean raw ! i) = None \<and> i < j \<and>
            j < length (resample_MS_mean mean raw) \<and>
            snd (resample_MS_mean mean raw ! j) = Some v \<and>
            (\<forall>k. i < k \<and> k < j \<longrightarrow> snd (resample_MS_mean mean raw ! k) = None) \<longrightarrow>
          snd (fill_step (resample_MS_mean mean raw) ! i) = Some v)"
proof -
  let ?s = "resample_MS_mean mean raw"
  assume i: "i < length ?s"
  have val: "snd (fill_step ?s ! i) = first_obs (map snd (drop i ?s))"
    using i by (simp add: fill_step_resample bfill_nth_snd)
  have "map fst (fill_step ?s) = map fst ?s" by (rule map_fst_fill_step)
  moreover have "\<forall>v. snd (?s ! i) = Some v \<longrightarrow> snd (fill_step ?s ! i) = Some v"
    using i val by (simp add: first_obs_here)
  moreover have "\<forall>j v. snd (?s ! i) = None \<and> i < j \<and> j < length ?s \<and> snd (?s ! j) = Some v \<and>
            (\<forall>k. i < k \<and> k < j \<longrightarrow> snd (?s ! k) = None) \<longrightarrow>
          snd (fill_step ?s ! i) = Some v"
    using val by (auto intro: first_obs_next)
  ultimately show ?thesis by blast
qed

text \<open>
  In a series observed in months 0 and 3, month 1 is missing and takes the value of
  month 3.
\<close>

theorem fill_is_bfill_witness:
  "1 < length (resample_MS_mean avg [(0, Some 1), (3, Some 5)]) \<and>
   snd (resample_MS_mean avg [(0, Some 1), (3, Some 5)] ! 0) = Some 1 \<and>
   snd (resample_MS_mean avg [(0, Some 1), (3, Some 5)] ! 1) = None \<and>
   snd (resample_MS_mean avg [(0, Some 1), (3, Some 5)] ! 2) = None \<and>
   snd (resample_MS_mean avg [(0, Some 1), (3, Some 5)] ! 3) = Some 5 \<and>
   snd (fill_step (resample_MS_mean avg [(0, Some 1), (3, Some 5)]) ! 1) = Some 5"
proof -
  let ?s = "resample_MS_mean avg [(0, Some 1), (3, Some 5)]"
  have h: "1 < length ?s" by code_simp
  have s0: "snd (?s ! 0) = Some 1" by code_simp
  have s1: "snd (?s ! 1) = None" by code_simp
  have s2: "snd (?s ! 2) = None" by code_simp
  have s3: "snd (?s ! 3) = Some 5" by code_simp
  have l: "3 < length ?s" by code_simp
  have gap: "\<forall>k. 1 < k \<and> k < 3 \<longrightarrow> snd (?s ! k) = None"
  proof (intro allI impI)
    fix k :: nat assume "1 < k \<and> k < 3"
    then have "k = 2" by arith
    with s2 show "snd (?s ! k) = None" by simp
  qed
  from fill_is_bfill [OF h] have
    "\<forall>j v. snd (?s ! 1) = None \<and> 1 < j \<and> j < length ?s \<and> snd (?s ! j) = Some v \<and>
            (\<forall>k. 1 < k \<and> k < j \<longrightarrow> snd (?s ! k) = None) \<longrightarrow>
          snd (fill_step ?s ! 1) = Some v"
    by blast
  then have "snd (?s ! 1) = None \<and> 1 < (3::nat) \<and> 3 < length ?s \<and> snd (?s ! 3) = Some 5 \<and>
            (\<forall>k. 1 < k \<and> k < 3 \<longrightarrow> snd (?s ! k) = None) \<longrightarrow>
          snd (fill_step ?s ! 1) = Some 5"
    by blast
  with s1 l s3 gap have "snd (fill_step ?s ! 1) = Some 5" by simp
  with h s0 s1 s2 s3 show ?thesis by blast
qed

subsection \<open>Temporal order of the two tables\<close>

text \<open>
  C5: for every input series, every test timestamp is strictly later than every training
  timestamp; the training timestamps followed by the test timestamps are the timestamps of
  the whole table, which increase month by month, so the test timestamps are the slice
  directly after the training prefix, earliest to latest; and the two tables share no
  timestamp.
\<close>

theorem test_after_train:
  "(\<forall>s \<in> set (map index (X_train (data mean raw))).
      \<forall>t \<in> set (X_test (data mean raw)). s < t) \<and>
   map index (X_train (data mean raw)) @ X_test (data mean raw) = map index (data mean raw) \<and>
   sorted_wrt (<) (X_test (data mean raw)) \<and>
   consecutive (map index (data mean raw)) \<and>
   set (map index (X_train (data mean raw))) \<inter> set (X_test (data mean raw)) = {}"
proof -
  let ?a = "map index (X_train (data mean raw))" and ?b = "X_test (data mean raw)"
  have s: "sorted_wrt (<) (?a @ ?b)" by (rule sorted_index_split)
  then have lt: "\<forall>s \<in> set ?a. \<forall>t \<in> set ?b. s < t" and sb: "sorted_wrt (<) ?b"
    by (simp_all add: sorted_wrt_append)
  from lt have "set ?a \<inter> set ?b = {}" by fastforce
  with lt sb show ?thesis
    by (simp only: index_split consecutive_index_data simp_thms)
qed

text \<open>
  On a series of fourteen months both tables are non-empty: months 0 and 1 train, months
  2 to 13 test.
\<close>

theorem test_after_train_witness:
  "map index (X_train (data avg [(0, Some 1), (13, Some 2)])) = [0, 1] \<and>
   X_test (data avg [(0, Some 1), (13, Some 2)]) = [2, 3, 4, 5, 6, 7, 8, 9, 10, 11, 12, 13] \<and>
   last (map index (X_train (data avg [(0, Some 1), (13, Some 2)]))) <
     hd (X_test (data avg [(0, Some 1), (13, Some 2)])) \<and>
   set (map index (X_train (data avg [(0, Some 1), (13, Some 2)]))) \<inter>
     set (X_test (data avg [(0, Some 1), (13, Some 2)])) = {}"
proof -
  let ?a = "map index (X_train (data avg [(0, Some 1), (13, Some 2)]))"
  let ?b = "X_test (data avg [(0, Some 1), (13, Some 2)])"
  have a: "?a = [0, 1]"
    by code_simp
  have b: "?b = [2, 3, 4, 5, 6, 7, 8, 9, 10, 11, 12, 13]"
    by code_simp
  have la: "last ?a \<in> set ?a" using a by simp
  have hb: "hd ?b \<in> set ?b" using b by simp
  note t = test_after_train [of avg "[(0, Some 1), (13, Some 2)]"]
  from t have ball: "\<forall>s \<in> set ?a. \<forall>t \<in> set ?b. s < t" by (rule conjunct1)
  have lt: "last ?a < hd ?b" by (rule bspec [OF bspec [OF ball la] hb])
  from t have "set ?a \<inter> set ?b = {}" by (elim conjE)
  with a b lt show ?thesis by (intro conjI)
qed

subsection \<open>The settings of the fit call\<close>

text \<open>
  C6: the keyword arguments of the fit call are exactly the six entries of \<open>settings\<close>
  and \<open>period\<close>, each key once, with the values written in the notebook; the label is
  the pair \<open>('index', 'co2')\<close> and the data frame is the training table.
\<close>

theorem fit_settings_exact:
  "dom (map_of (kwargs (automl_fit_args d))) =
     {''time_budget'', ''metric'', ''task'', ''log_file_name'', ''eval_method'', ''seed'',
      ''period''} \<and>
   distinct (map fst (kwargs (automl_fit_args d))) \<and>
   map_of (kwargs (automl_fit_args d)) ''time_budget'' = Some (PyInt 180) \<and>
   map_of (kwargs (automl_fit_args d)) ''metric'' = Some (PyStr ''mape'') \<and>
   map_of (kwargs (automl_fit_args d)) ''task'' = Some (PyStr ''forecast'') \<and>
   map_of (kwargs (automl_fit_args d)) ''log_file_name'' = Some (PyStr ''CO2_forecast.log'') \<and>
   map_of (kwargs (automl_fit_args d)) ''eval_method'' = Some (PyStr ''holdout'') \<and>
   map_of (kwargs (automl_fit_args d)) ''seed'' = Some (PyInt 7654321) \<and>
   map_of (kwargs (automl_fit_args d)) ''period'' = Some (PyInt 12) \<and>
   label (automl_fit_args d) = (''index'', ''co2'') \<and>
   dataframe (automl_fit_args d) = X_train d"
  by (simp add: automl_fit_args_def settings_def time_horizon_def dom_map_of_conv_image_fst
      insert_commute)

text \<open>
  C7: the settings and the label handed to the fit call are the same in any two runs,
  whatever series each run has loaded.
\<close>

theorem fit_settings_deterministic:
  "kwargs (automl_fit_args (data mean1 raw1)) = kwargs (automl_fit_args (data mean2 raw2)) \<and>
   label (automl_fit_args (data mean1 raw1)) = label (automl_fit_args (data mean2 raw2))"
  by (simp add: automl_fit_args_def)

subsection \<open>Series shorter than the horizon\<close>

text \<open>
  C9, as stated: with fewer than 12 rows the training table is empty and the test table is
  the whole series. A series of eleven months refutes it: \<open>split_idx\<close> is \<open>-1\<close>, the
  training table is the first ten rows and the test table the last one.
\<close>

theorem short_series_split_counterexample:
  "\<not> (num_samples (data avg [(0, Some 1), (10, Some 4)]) < time_horizon \<longrightarrow>
      X_train (data avg [(0, Some 1), (10, Some 4)]) = [] \<and>
      test_table (data avg [(0, Some 1), (10, Some 4)]) = data avg [(0, Some 1), (10, Some 4)])"
  by code_simp

text \<open>
  C9, amended: with \<open>n < 12\<close> rows, \<open>split_idx\<close> is negative and counts from the end of
  the table: the training table is the first \<open>max 0 (2 * n - 12)\<close> rows, and the test table
  (\<open>X_test\<close> its timestamps, \<open>y_test\<close> its values) is the remaining \<open>min n (12 - n)\<close> rows,
  which is fewer than the horizon. The training table is empty, and the test table the whole
  series, exactly when \<open>2 * n \<le> 12\<close>.
\<close>

theorem short_series_split:
  "num_samples d < time_horizon \<Longrightarrow>
     split_idx d < 0 \<and>
     X_train d = take (nat (max 0 (2 * num_samples d - time_horizon))) d \<and>
     test_table d = drop (nat (max 0 (2 * num_samples d - time_horizon))) d \<and>
     X_test d = map index (drop (nat (max 0 (2 * num_samples d - time_horizon))) d) \<and>
     y_test d = map co2 (drop (nat (max 0 (2 * num_samples d - time_horizon))) d) \<and>
     int (length (X_train d)) = max 0 (2 * num_samples d - time_horizon) \<and>
     int (length (X_test d)) = min (num_samples d) (time_horizon - num_samples d) \<and>
     length (y_test d) = length (X_test d) \<and>
     int (length (X_test d)) < time_horizon \<and>
     (X_train d = [] \<longleftrightarrow> 2 * num_samples d \<le> time_horizon) \<and>
     (test_table d = d \<longleftrightarrow> 2 * num_samples d \<le> time_horizon)"
proof -
  assume h: "num_samples d < time_horizon"
  let ?k = "slice_bound (length d) (split_idx d)"
  have k: "int ?k = max 0 (2 * num_samples d - time_horizon)"
    using h by (simp add: slice_bound_def split_idx_def num_samples_def)
  then have kn: "?k = nat (max 0 (2 * num_samples d - time_horizon))"
    by (metis nat_int)
  have kl: "?k \<le> length d"
    using h k by (simp add: num_samples_def time_horizon_def)
  have tk: "X_train d = take ?k d"
    by (simp add: X_train_def slice_to_def)
  have tr: "length (X_train d) = ?k"
    using kl by (simp add: X_train_def slice_to_def)
  have xk: "X_test d = map index (drop ?k d)"
    by (simp add: X_test_def slice_from_def)
  have yk: "y_test d = map co2 (drop ?k d)"
    by (simp add: y_test_def slice_from_def)
  have te: "length (X_test d) = length d - ?k"
    by (simp add: X_test_def slice_from_def)
  have ye: "length (y_test d) = length d - ?k"
    by (simp add: y_test_def slice_from_def)
  have tt: "test_table d = drop ?k d"
    by (simp add: test_table_slice slice_from_def)
  have e1: "X_train d = [] \<longleftrightarrow> ?k = 0 \<or> d = []"
    by (simp add: X_train_def slice_to_def)
  have e2: "test_table d = d \<longleftrightarrow> ?k = 0 \<or> d = []"
  proof
    assume "test_table d = d"
    then have "length (drop ?k d) = length d" using tt by simp
    then show "?k = 0 \<or> d = []" using kl by (cases d) auto
  next
    assume "?k = 0 \<or> d = []"
    then show "test_table d = d" using tt by auto
  qed
  have z: "?k = 0 \<or> d = [] \<longleftrightarrow> 2 * num_samples d \<le> time_horizon"
    using k by (cases d) (auto simp: num_samples_def time_horizon_def)
  have "split_idx d < 0" using h by (simp add: split_idx_def)
  moreover have "X_train d = take (nat (max 0 (2 * num_samples d - time_horizon))) d"
    using tk kn by simp
  moreover have "test_table d = drop (nat (max 0 (2 * num_samples d - time_horizon))) d"
    using tt kn by simp
  moreover have "X_test d = map index (drop (nat (max 0 (2 * num_samples d - time_horizon))) d)"
    using xk kn by simp
  moreover have "y_test d = map co2 (drop (nat (max 0 (2 * num_samples d - time_horizon))) d)"
    using yk kn by simp
  moreover have "int (length (X_train d)) = max 0 (2 * num_samples d - time_horizon)"
    using tr k by simp
  moreover have "int (length (X_test d)) = min (num_samples d) (time_horizon - num_samples d)"
    using te k kl h by (simp add: num_samples_def time_horizon_def of_nat_diff)
  moreover have "length (y_test d) = length (X_test d)" using te ye by simp
  moreover have "int (length (X_test d)) < time_horizon"
    using te h by (simp add: num_samples_def)
  moreover have "X_train d = [] \<longleftrightarrow> 2 * num_samples d \<le> time_horizon"
    using e1 z by simp
  moreover have "test_table d = d \<longleftrightarrow> 2 * num_samples d \<le> time_horizon"
    using e2 z by simp
  ultimately show ?thesis by (intro conjI)
qed

text \<open>
  The series of eleven months: the first ten rows train, the last row is the test table.
\<close>

theorem short_series_split_witness:
  "num_samples (data avg [(0, Some 1), (10, Some 4)]) < time_horizon \<and>
   split_idx (data avg [(0, Some 1), (10, Some 4)]) < 0 \<and>
   X_train (data avg [(0, Some 1), (10, Some 4)]) =
     take 10 (data avg [(0, Some 1), (10, Some 4)]) \<and>
   test_table (data avg [(0, Some 1), (10, Some 4)]) =
     drop 10 (data avg [(0, Some 1), (10, Some 4)]) \<and>
   X_test (data avg [(0, Some 1), (10, Some 4)]) =
     map index (drop 10 (data avg [(0, Some 1), (10, Some 4)])) \<and>
   y_test (data avg [(0, Some 1), (10, Some 4)]) =
     map co2 (drop 10 (data avg [(0, Some 1), (10, Some 4)])) \<and>
   int (length (X_train (data avg [(0, Some 1), (10, Some 4)]))) = 10 \<and>
   int (length (X_test (data avg [(0, Some 1), (10, Some 4)]))) = 1"
proof -
  have h: "num_samples (data avg [(0, Some 1), (10, Some 4)]) < time_horizon"
    by code_simp
  have n: "num_samples (data avg [(0, Some 1), (10, Some 4)]) = 11"
    by code_simp
  have m: "max 0 (2 * num_samples (data avg [(0, Some 1), (10, Some 4)]) - time_horizon) = 10"
    by (simp add: n time_horizon_def)
  have m': "min (num_samples (data avg [(0, Some 1), (10, Some 4)]))
      (time_horizon - num_samples (data avg [(0, Some 1), (10, Some 4)])) = 1"
    by (simp add: n time_horizon_def)
  have ten: "nat 10 = 10" by simp
  note t = short_series_split [OF h, unfolded m m' ten]
  from t h show ?thesis
    by (elim conjE) (intro conjI; assumption)
qed

subsection \<open>Prediction does not see the held-out values\<close>

text \<open>
  C10: \<open>X_test\<close>, the argument of \<open>predict\<close>, holds timestamps only. For any prediction
  function and fitted model, two tables with the same timestamp column give the same
  \<open>X_test\<close> and the same predictions, whatever their \<open>co2\<close> values are.
\<close>

theorem predict_ignores_held_out_values:
  "map index d1 = map index d2 \<Longrightarrow>
     X_test d1 = X_test d2 \<and>
     flaml_y_pred predict_fn automl d1 = flaml_y_pred predict_fn automl d2"
proof -
  assume h: "map index d1 = map index d2"
  then have "length d1 = length d2" by (metis length_map)
  then have "X_test d1 = X_test d2"
    using h by (simp add: X_test_index split_idx_def num_samples_def)
  then show ?thesis by (simp add: flaml_y_pred_def)
qed

text \<open>
  Two series of fourteen months that differ in the last, held-out value.
\<close>

theorem predict_ignores_held_out_values_witness:
  "map index (data avg [(0, Some 1), (13, Some 2)]) =
     map index (data avg [(0, Some 1), (13, Some 7)]) \<and>
   y_test (data avg [(0, Some 1), (13, Some 2)]) \<noteq>
     y_test (data avg [(0, Some 1), (13, Some 7)]) \<and>
   flaml_y_pred (\<lambda>(m::int) ts. map (\<lambda>t. m + t) ts) 100 (data avg [(0, Some 1), (13, Some 2)]) =
     flaml_y_pred (\<lambda>(m::int) ts. map (\<lambda>t. m + t) ts) 100 (data avg [(0, Some 1), (13, Some 7)])"
proof -
  have h: "map index (data avg [(0, Some 1), (13, Some 2)]) =
     map index (data avg [(0, Some 1), (13, Some 7)])"
    by code_simp
  have y: "y_test (data avg [(0, Some 1), (13, Some 2)]) \<noteq>
     y_test (data avg [(0, Some 1), (13, Some 7)])"
    by code_simp
  have "flaml_y_pred (\<lambda>(m::int) ts. map (\<lambda>t. m + t) ts) 100
          (data avg [(0, Some 1), (13, Some 2)]) =
        flaml_y_pred (\<lambda>(m::int) ts. map (\<lambda>t. m + t) ts) 100
          (data avg [(0, Some 1), (13, Some 7)])"
    by (rule predict_ignores_held_out_values [OF h, THEN conjunct2])
  with h y show ?thesis by (intro conjI)
qed

end
